theory Spec2Isabelle
  imports Main
begin

section \<open>Request authentication and authorisation middleware (src/lib/restapi/auth.ts)\<close>

text \<open>
  Each Express middleware \<^verbatim>\<open>(req, res, next)\<close> of the source is embedded as a function
  from the request to the one thing the middleware does with the chain: it calls
  \<^verbatim>\<open>next()\<close> (with the request as it has mutated it), it calls \<^verbatim>\<open>next(err)\<close>, it writes a
  terminal response, or it throws before doing any of these. JavaScript's
  \<^verbatim>\<open>undefined\<close> is \<open>None\<close>. The collaborators imported from outside this file
  (\<^verbatim>\<open>jwt-decode\<close>, \<^verbatim>\<open>express-jwt\<close>, \<^verbatim>\<open>../sessionusers\<close>, \<^verbatim>\<open>../db/store\<close>) are parameters,
  collected in the record \<open>env\<close>; an exception thrown (or a promise rejected) by one of
  them is the \<open>Inl\<close> of its result.
\<close>

subsection \<open>Data\<close>

text \<open>
  A value produced by \<^verbatim>\<open>JSON.parse\<close>: what \<^verbatim>\<open>jwtDecode\<close> returns for a token payload, whatever
  type the source declares for it. A number is kept as its literal (this file never computes
  with one or compares one), an object as the list of its keys and values, where the first
  entry of a key is the one that is read.
\<close>

datatype json =
  JNull | JBool bool | JNum string | JStr string | JArr "json list" | JObj "(string \<times> json) list"

text \<open>\<^verbatim>\<open>req.user.app_metadata\<close>: the structured role/tenant pair.\<close>

record app_metadata =
  role :: "string option"
  tenant :: "string option"

text \<open>
  \<^verbatim>\<open>req.user\<close>: the fields this file reads or writes, and the remaining keys of the object
  (the raw claims of an externally verified token) as a map from key to value. \<open>sub\<close> is
  whatever value the token carries, or \<^verbatim>\<open>undefined\<close>.
\<close>

record user =
  sub :: "json option"
  app_metadata :: "app_metadata option"
  session :: "json option"
  claims :: "string \<rightharpoonup> string"

text \<open>\<^verbatim>\<open>Objects.Project\<close>: the fields this file reads.\<close>

record project =
  project_id :: string
  project_classid :: string
  project_userid :: string
  isCrowdSourced :: bool

text \<open>\<^verbatim>\<open>Objects.ClassTenant\<close>: the field this file reads.\<close>

record class_tenant =
  isManaged :: bool

text \<open>\<^verbatim>\<open>req.params\<close>: a path parameter the route does not declare is \<^verbatim>\<open>undefined\<close>.\<close>

record params =
  classid :: "string option"
  studentid :: "string option"
  projectid :: "string option"

text \<open>A header value is a string or (for a repeated header) an array of strings.\<close>

datatype header_value = HString string | HArray "string list"

record headers =
  authorization :: "header_value option"

text \<open>\<^verbatim>\<open>Express.Request\<close>, and \<^verbatim>\<open>RequestWithProject\<close> once \<open>project\<close> is set.\<close>

record request =
  params :: params
  headers :: headers
  user :: "user option"
  project :: "project option"

datatype error = TypeError | Failure string

text \<open>
  The terminal responses: the helpers of \<^verbatim>\<open>./errors\<close> by name, and
  \<^verbatim>\<open>res.status(s).json({ error : msg })\<close> as \<open>StatusJson s msg\<close>.
\<close>

datatype response = NotAuthorised | Forbidden | SupervisorOnly | NotFound | StatusJson nat string

datatype outcome = Next request | NextErr error | Respond response | Throws error

text \<open>\<^verbatim>\<open>httpstatus.FORBIDDEN\<close> of the http-status package.\<close>

definition FORBIDDEN :: nat where
  "FORBIDDEN = 403"

text \<open>
  The collaborators. \<open>jwtDecode\<close> returns \<open>None\<close> when it throws, and otherwise the parsed
  payload, which may be any JSON value (\<^verbatim>\<open>null\<close> included: the declaration
  \<^verbatim>\<open>let decoded: Objects.TemporaryUser\<close> is not checked at run time); its argument is
  \<^verbatim>\<open>undefined\<close> when the header has no second word. \<open>checkSessionToken\<close> receives
  \<^verbatim>\<open>decoded.token\<close> as it is, \<^verbatim>\<open>undefined\<close> included. The stores return \<open>Inl\<close> when they
  throw; \<open>auth0Authenticate\<close> is the express-jwt middleware.
\<close>

record env =
  CLASS_NAME :: string
  jwtDecode :: "string option \<Rightarrow> json option"
  checkSessionToken :: "string option \<Rightarrow> json option \<Rightarrow> error + bool"
  auth0Authenticate :: "request \<Rightarrow> outcome"
  getClassTenant :: "string option \<Rightarrow> error + class_tenant"
  getProject :: "string option \<Rightarrow> error + project option"

subsection \<open>JavaScript primitives used by the source\<close>

text \<open>\<^verbatim>\<open>s.split(c)\<close> for a one-character separator: never empty, \<^verbatim>\<open>"".split(" ")\<close> is \<^verbatim>\<open>[""]\<close>.\<close>

fun split :: "char \<Rightarrow> string \<Rightarrow> string list" where
  "split c [] = [] # []"
| "split c (x # xs) =
     (if x = c then [] # split c xs
      else (case split c xs of [] \<Rightarrow> [x] # [] | w # ws \<Rightarrow> (x # w) # ws))"

text \<open>\<^verbatim>\<open>xs[i]\<close>: \<^verbatim>\<open>undefined\<close> out of range.\<close>

definition index :: "'a list \<Rightarrow> nat \<Rightarrow> 'a option" where
  "index xs i = (if i < length xs then Some (xs ! i) else None)"

text \<open>Truthiness of \<^verbatim>\<open>req.headers.authorization\<close>: falsy when undefined or the empty string.\<close>

fun truthy :: "header_value option \<Rightarrow> bool" where
  "truthy None = False"
| "truthy (Some (HString s)) = (s \<noteq> [])"
| "truthy (Some (HArray xs)) = True"

text \<open>\<^verbatim>\<open>typeof v === 'string'\<close>.\<close>

fun is_string :: "header_value option \<Rightarrow> bool" where
  "is_string (Some (HString s)) = True"
| "is_string _ = False"

text \<open>\<^verbatim>\<open>v.split(' ')\<close> of a header that is a string.\<close>

fun header_words :: "header_value option \<Rightarrow> string list" where
  "header_words (Some (HString s)) = split CHR '' '' s"
| "header_words _ = []"

text \<open>
  The value of the property \<^verbatim>\<open>k\<close> of a value that is not \<^verbatim>\<open>null\<close>, for the keys this file
  reads (\<^verbatim>\<open>token\<close>, \<^verbatim>\<open>id\<close>): the value stored under the key in an object, \<^verbatim>\<open>undefined\<close> when
  the object has no such key and for a boolean, a number, a string or an array.
\<close>

fun field :: "json \<Rightarrow> string \<Rightarrow> json option" where
  "field (JObj kvs) k = map_of kvs k"
| "field v k = None"

text \<open>\<^verbatim>\<open>v.k\<close>: reading a property of \<^verbatim>\<open>null\<close> throws a TypeError.\<close>

fun property :: "json \<Rightarrow> string \<Rightarrow> error + json option" where
  "property JNull k = Inl TypeError"
| "property v k = Inr (field v k)"

subsection \<open>Authentication\<close>

text \<open>
  \<^verbatim>\<open>sessionusersAuthenticate\<close> (lines 59-94). Only the call of \<^verbatim>\<open>jwtDecode\<close> is inside the first
  \<^verbatim>\<open>try\<close>; the reads of \<^verbatim>\<open>decoded.token\<close> (line 73) and \<^verbatim>\<open>decoded.id\<close> (line 77) are inside
  the second, whose \<^verbatim>\<open>catch\<close> calls \<^verbatim>\<open>next(err)\<close>.
\<close>

definition sessionusersAuthenticate :: "env \<Rightarrow> string option \<Rightarrow> request \<Rightarrow> outcome" where
  "sessionusersAuthenticate e jwtTokenString req =
     (case jwtDecode e jwtTokenString of
        None \<Rightarrow> Respond NotAuthorised
      | Some decoded \<Rightarrow>
          (case property decoded ''token'' of
             Inl err \<Rightarrow> NextErr err
           | Inr decoded_token \<Rightarrow>
               (case checkSessionToken e (studentid (params req)) decoded_token of
                  Inl err \<Rightarrow> NextErr err
                | Inr sessionUserIsAuthenticated \<Rightarrow>
                    if sessionUserIsAuthenticated
                    then (case property decoded ''id'' of
                            Inl err \<Rightarrow> NextErr err
                          | Inr decoded_id \<Rightarrow>
                              Next (req\<lparr>user := Some
                                \<lparr>sub = decoded_id,
                                 app_metadata =
                                   Some \<lparr>role = Some ''student'', tenant = Some (CLASS_NAME e)\<rparr>,
                                 session = Some decoded,
                                 claims = Map.empty\<rparr>\<rparr>))
                    else Respond NotAuthorised)))"

text \<open>\<^verbatim>\<open>authenticate\<close> (lines 100-118).\<close>

definition authenticate :: "env \<Rightarrow> request \<Rightarrow> outcome" where
  "authenticate e req =
     (if classid (params req) = Some (CLASS_NAME e) \<and>
         truthy (authorization (headers req)) \<and>
         is_string (authorization (headers req)) \<and>
         index (header_words (authorization (headers req))) 0 = Some ''Bearer''
      then sessionusersAuthenticate e (index (header_words (authorization (headers req))) 1) req
      else auth0Authenticate e req)"

subsection \<open>Authorisation\<close>

text \<open>The vendor-namespaced claim keys read by \<^verbatim>\<open>getValuesFromToken\<close>.\<close>

definition role_key :: string where
  "role_key = ''https://machinelearningforkids.co.uk/api/role''"

definition tenant_key :: string where
  "tenant_key = ''https://machinelearningforkids.co.uk/api/tenant''"

text \<open>\<^verbatim>\<open>getValuesFromToken\<close> (lines 126-133): the request after the in-place update.\<close>

definition getValuesFromToken :: "request \<Rightarrow> request" where
  "getValuesFromToken req =
     (case user req of
        None \<Rightarrow> req
      | Some u \<Rightarrow>
          (case app_metadata u of
             Some m \<Rightarrow> req
           | None \<Rightarrow> req\<lparr>user := Some (u\<lparr>app_metadata :=
                        Some \<lparr>role = claims u role_key, tenant = claims u tenant_key\<rparr>\<rparr>)\<rparr>))"

text \<open>\<^verbatim>\<open>checkValidUser\<close> (lines 136-147).\<close>

definition checkValidUser :: "request \<Rightarrow> outcome" where
  "checkValidUser req0 =
     (let req = getValuesFromToken req0 in
      case user req of
        None \<Rightarrow> Respond NotAuthorised
      | Some u \<Rightarrow>
          (case app_metadata u of
             None \<Rightarrow> Respond NotAuthorised
           | Some m \<Rightarrow>
               if tenant m \<noteq> classid (params req) then Respond Forbidden
               else Next req))"

text \<open>
  \<^verbatim>\<open>requireSupervisor\<close> (lines 149-155): reading \<^verbatim>\<open>req.user.app_metadata.role\<close> throws a
  TypeError when \<^verbatim>\<open>req.user\<close> or \<^verbatim>\<open>req.user.app_metadata\<close> is undefined.
\<close>

definition requireSupervisor :: "request \<Rightarrow> outcome" where
  "requireSupervisor req =
     (case user req of
        None \<Rightarrow> Throws TypeError
      | Some u \<Rightarrow>
          (case app_metadata u of
             None \<Rightarrow> Throws TypeError
           | Some m \<Rightarrow>
               if role m \<noteq> Some ''supervisor'' then Respond SupervisorOnly
               else Next req))"

text \<open>\<^verbatim>\<open>requireSiteAdmin\<close> (lines 157-165).\<close>

definition requireSiteAdmin :: "request \<Rightarrow> outcome" where
  "requireSiteAdmin req0 =
     (let req = getValuesFromToken req0 in
      case user req of
        None \<Rightarrow> Throws TypeError
      | Some u \<Rightarrow>
          (case app_metadata u of
             None \<Rightarrow> Throws TypeError
           | Some m \<Rightarrow>
               if role m \<noteq> Some ''siteadmin'' then Respond (StatusJson FORBIDDEN ''Forbidden'')
               else Next req))"

text \<open>\<^verbatim>\<open>ensureUnmanaged\<close> (lines 168-186).\<close>

definition ensureUnmanaged :: "env \<Rightarrow> request \<Rightarrow> outcome" where
  "ensureUnmanaged e req =
     (case getClassTenant e (classid (params req)) of
        Inl err \<Rightarrow> NextErr err
      | Inr policy \<Rightarrow>
          if isManaged policy
          then Respond (StatusJson FORBIDDEN ''Access to API keys is forbidden for managed tenants'')
          else Next req)"

subsection \<open>Project access\<close>

text \<open>
  The value of \<^verbatim>\<open>req.user && (project.userid === req.user.sub) && (project.userid === userid)\<close>
  (line 211): \<^verbatim>\<open>undefined\<close> when there is no \<^verbatim>\<open>req.user\<close>, a boolean otherwise.
\<close>

definition isOwner :: "request \<Rightarrow> project \<Rightarrow> bool option" where
  "isOwner req p =
     (case user req of
        None \<Rightarrow> None
      | Some u \<Rightarrow> Some (Some (JStr (project_userid p)) = sub u \<and>
                        Some (project_userid p) = studentid (params req)))"

text \<open>\<^verbatim>\<open>verifyProjectAuth\<close> (lines 191-229).\<close>

definition verifyProjectAuth :: "env \<Rightarrow> request \<Rightarrow> bool \<Rightarrow> outcome" where
  "verifyProjectAuth e req isCrowdSourcedAllowed =
     (case getProject e (projectid (params req)) of
        Inl err \<Rightarrow> NextErr err
      | Inr None \<Rightarrow> Respond NotFound
      | Inr (Some p) \<Rightarrow>
          if Some (project_classid p) \<noteq> classid (params req) then Respond Forbidden
          else if isOwner req p = Some False \<and> (\<not> isCrowdSourcedAllowed \<or> \<not> isCrowdSourced p)
          then Respond Forbidden
          else Next (req\<lparr>project := Some p\<rparr>))"

text \<open>\<^verbatim>\<open>verifyProjectOwner\<close> (lines 238-244) and \<^verbatim>\<open>verifyProjectAccess\<close> (lines 252-258).\<close>

definition verifyProjectOwner :: "env \<Rightarrow> request \<Rightarrow> outcome" where
  "verifyProjectOwner e req = verifyProjectAuth e req False"

definition verifyProjectAccess :: "env \<Rightarrow> request \<Rightarrow> outcome" where
  "verifyProjectAccess e req = verifyProjectAuth e req True"

subsection \<open>Header shapes named by the specification\<close>

text \<open>
  A bearer-scheme header: a string whose first space-separated word is \<^verbatim>\<open>Bearer\<close>. A
  header that is missing, not a string, or of another scheme is one that is not this.
\<close>

definition bearer_scheme :: "header_value option \<Rightarrow> bool" where
  "bearer_scheme h =
     (case h of
        Some (HString s) \<Rightarrow> index (split CHR '' '' s) 0 = Some ''Bearer''
      | Some (HArray xs) \<Rightarrow> False
      | None \<Rightarrow> False)"

text \<open>The structured role/tenant pair of a request, when it has a principal that carries one.\<close>

definition structured_claims :: "request \<Rightarrow> app_metadata option" where
  "structured_claims req = (case user req of None \<Rightarrow> None | Some u \<Rightarrow> app_metadata u)"

subsection \<open>Concrete collaborators and requests\<close>

definition mk_request ::
  "string option \<Rightarrow> string option \<Rightarrow> string option \<Rightarrow> header_value option \<Rightarrow> user option \<Rightarrow> request" where
  "mk_request c s p h u =
     \<lparr>params = \<lparr>classid = c, studentid = s, projectid = p\<rparr>,
      headers = \<lparr>authorization = h\<rparr>, user = u, project = None\<rparr>"

definition session_payload :: json where
  "session_payload = JObj [(''id'', JStr ''u1''), (''token'', JStr ''tok1'')]"

definition boom_payload :: json where
  "boom_payload = JObj [(''id'', JStr ''u2''), (''token'', JStr ''boom'')]"

definition auth0_user :: user where
  "auth0_user =
     \<lparr>sub = Some (JStr ''auth0|teacher''), app_metadata = None, session = None,
      claims = [role_key \<mapsto> ''supervisor'', tenant_key \<mapsto> ''class1'']\<rparr>"

definition alice :: user where
  "alice =
     \<lparr>sub = Some (JStr ''alice''),
      app_metadata = Some \<lparr>role = Some ''student'', tenant = Some ''class1''\<rparr>,
      session = None, claims = Map.empty\<rparr>"

definition project1 :: project where
  "project1 =
     \<lparr>project_id = ''p1'', project_classid = ''class1'', project_userid = ''alice'',
      isCrowdSourced = False\<rparr>"

definition project2 :: project where
  "project2 =
     \<lparr>project_id = ''p2'', project_classid = ''class1'', project_userid = ''bob'',
      isCrowdSourced = True\<rparr>"

text \<open>
  A decoder that knows two well-formed tokens, returns \<^verbatim>\<open>null\<close> for the token whose payload
  segment \<^verbatim>\<open>bnVsbA\<close> is the base64 of the text \<^verbatim>\<open>null\<close>, and throws on everything else;
  a session store that knows one session and faults on the token \<^verbatim>\<open>boom\<close>, an external
  verifier that accepts one token under a lower-case scheme word, a tenant store with one managed
  tenant and a project store with two projects; the stores fault on the key \<^verbatim>\<open>broken\<close>.
\<close>

definition example_env :: env where
  "example_env =
     \<lparr>CLASS_NAME = ''session-users'',
      jwtDecode = (\<lambda>t. if t = Some ''good.jwt'' then Some session_payload
                        else if t = Some ''boom.jwt'' then Some boom_payload
                        else if t = Some ''h.bnVsbA.s'' then Some JNull
                        else None),
      checkSessionToken = (\<lambda>s t. if t = Some (JStr ''boom'') then Inl (Failure ''session store down'')
                                  else Inr (s = Some ''u1'' \<and> t = Some (JStr ''tok1''))),
      auth0Authenticate = (\<lambda>r. if authorization (headers r) = Some (HString ''bearer auth0.jwt'')
                                then Next (r\<lparr>user := Some auth0_user\<rparr>)
                                else NextErr (Failure ''UnauthorizedError'')),
      getClassTenant = (\<lambda>c. if c = Some ''broken'' then Inl (Failure ''tenant store down'')
                             else Inr \<lparr>isManaged = (c = Some ''managed'')\<rparr>),
      getProject = (\<lambda>p. if p = Some ''broken'' then Inl (Failure ''project store down'')
                         else if p = Some ''p1'' then Inr (Some project1)
                         else if p = Some ''p2'' then Inr (Some project2)
                         else Inr None)\<rparr>"

definition teacher :: user where
  "teacher =
     \<lparr>sub = Some (JStr ''carol''),
      app_metadata = Some \<lparr>role = Some ''supervisor'', tenant = Some ''class1''\<rparr>,
      session = None, claims = Map.empty\<rparr>"

section \<open>Properties\<close>

subsection \<open>Helper facts\<close>

lemma split_nonempty: "split c s \<noteq> []"
  by (cases s) (auto split: list.splits)

lemma index_split_empty: "index (split c []) 0 = Some []"
  by (simp add: index_def)

lemma bearer_scheme_iff:
  "bearer_scheme h \<longleftrightarrow>
     truthy h \<and> is_string h \<and> index (header_words h) 0 = Some ''Bearer''"
proof (cases h)
  case None
  then show ?thesis by (simp add: bearer_scheme_def)
next
  case (Some v)
  show ?thesis
  proof (cases v)
    case (HString s)
    show ?thesis
    proof (cases s)
      case Nil
      with Some HString show ?thesis by (simp add: bearer_scheme_def index_def)
    next
      case (Cons x xs)
      with Some HString show ?thesis by (simp add: bearer_scheme_def)
    qed
  next
    case (HArray xs)
    with Some show ?thesis by (simp add: bearer_scheme_def index_def)
  qed
qed

lemma params_getValuesFromToken: "params (getValuesFromToken req) = params req"
  by (simp add: getValuesFromToken_def split: option.splits)

lemma getValuesFromToken_present:
  "user req = Some u \<Longrightarrow> app_metadata u = Some m \<Longrightarrow> getValuesFromToken req = req"
  by (simp add: getValuesFromToken_def)

lemma getValuesFromToken_absent: "user req = None \<Longrightarrow> getValuesFromToken req = req"
  by (simp add: getValuesFromToken_def)

lemma structured_claims_normalised:
  "structured_claims (getValuesFromToken req) = None \<longleftrightarrow> user req = None"
  by (simp add: structured_claims_def getValuesFromToken_def split: option.splits)

subsection \<open>Authentication routing\<close>

text \<open>
  C1, as the specification states it: a request for the reserved session tenant whose
  credential header is missing, not a string or not of the bearer scheme is answered
  Unauthenticated and never handed to the external verifier. The code does hand it over: here
  the header \<^verbatim>\<open>bearer auth0.jwt\<close> (lower-case scheme word) reaches the external verifier,
  which accepts it, and the chain continues with the principal the verifier attached.
\<close>

theorem authenticate_reserved_tenant_counterexample:
  "classid (params (mk_request (Some ''session-users'') (Some ''u1'') None
                       (Some (HString ''bearer auth0.jwt'')) None))
     = Some (CLASS_NAME example_env)
   \<and> \<not> bearer_scheme (authorization (headers (mk_request (Some ''session-users'') (Some ''u1'') None
                       (Some (HString ''bearer auth0.jwt'')) None)))
   \<and> authenticate example_env
        (mk_request (Some ''session-users'') (Some ''u1'') None
           (Some (HString ''bearer auth0.jwt'')) None)
     = Next (mk_request (Some ''session-users'') (Some ''u1'') None
           (Some (HString ''bearer auth0.jwt'')) (Some auth0_user))
   \<and> authenticate example_env
        (mk_request (Some ''session-users'') (Some ''u1'') None
           (Some (HString ''bearer auth0.jwt'')) None)
     \<noteq> Respond NotAuthorised"
  by (simp add: authenticate_def example_env_def mk_request_def bearer_scheme_def index_def)

text \<open>
  C1, amended: a request for the reserved session tenant whose credential header is missing,
  not a string or not of the bearer scheme is delegated to the external verifier, and the
  outcome of \<^verbatim>\<open>authenticate\<close> is the verifier's outcome on that request.
\<close>

theorem authenticate_not_bearer_delegates:
  assumes "classid (params req) = Some (CLASS_NAME e)"
    and "\<not> bearer_scheme (authorization (headers req))"
  shows "authenticate e req = auth0Authenticate e req"
  using assms by (auto simp: authenticate_def bearer_scheme_iff)

theorem authenticate_not_bearer_delegates_witness:
  "classid (params (mk_request (Some ''session-users'') (Some ''u1'') None None None))
     = Some (CLASS_NAME example_env)
   \<and> \<not> bearer_scheme (authorization (headers
         (mk_request (Some ''session-users'') (Some ''u1'') None None None)))
   \<and> authenticate example_env (mk_request (Some ''session-users'') (Some ''u1'') None None None)
     = NextErr (Failure ''UnauthorizedError'')"
proof -
  let ?r = "mk_request (Some ''session-users'') (Some ''u1'') None None None"
  have c: "classid (params ?r) = Some (CLASS_NAME example_env)"
    by (simp add: mk_request_def example_env_def)
  have h: "\<not> bearer_scheme (authorization (headers ?r))"
    by (simp add: mk_request_def bearer_scheme_def)
  have "auth0Authenticate example_env ?r = NextErr (Failure ''UnauthorizedError'')"
    by (simp add: mk_request_def example_env_def)
  with authenticate_not_bearer_delegates [OF c h] c h show ?thesis by simp
qed

lemma property_not_null:
  "property d k = Inr v \<Longrightarrow> d \<noteq> JNull \<and> v = field d k \<and> property d k' = Inr (field d k')"
  by (cases d) auto

text \<open>
  C4: for a request for the reserved session tenant with a bearer header whose token decodes
  and whose (member identifier, token) pair the session store verifies, \<^verbatim>\<open>authenticate\<close>
  continues the chain with a principal of role student, tenant the reserved session tenant,
  subject the decoded payload's id and session the decoded payload.
\<close>

theorem authenticate_session_success:
  assumes "classid (params req) = Some (CLASS_NAME e)"
    and "authorization (headers req) = Some (HString h)"
    and "index (split CHR '' '' h) 0 = Some ''Bearer''"
    and "jwtDecode e (index (split CHR '' '' h) 1) = Some decoded"
    and "property decoded ''token'' = Inr decoded_token"
    and "checkSessionToken e (studentid (params req)) decoded_token = Inr True"
  shows "authenticate e req =
           Next (req\<lparr>user := Some
             \<lparr>sub = field decoded ''id'',
              app_metadata = Some \<lparr>role = Some ''student'', tenant = Some (CLASS_NAME e)\<rparr>,
              session = Some decoded,
              claims = Map.empty\<rparr>\<rparr>)"
proof -
  have "h \<noteq> []"
    using assms(3) by (auto simp: index_def)
  moreover have "property decoded ''id'' = Inr (field decoded ''id'')"
    using assms(5) by (simp add: property_not_null)
  ultimately show ?thesis
    using assms by (simp add: authenticate_def sessionusersAuthenticate_def)
qed

theorem authenticate_session_success_witness:
  "authenticate example_env
     (mk_request (Some ''session-users'') (Some ''u1'') None (Some (HString ''Bearer good.jwt'')) None)
   = Next (mk_request (Some ''session-users'') (Some ''u1'') None (Some (HString ''Bearer good.jwt''))
       (Some \<lparr>sub = Some (JStr ''u1''),
              app_metadata = Some \<lparr>role = Some ''student'', tenant = Some ''session-users''\<rparr>,
              session = Some session_payload,
              claims = Map.empty\<rparr>))"
proof -
  let ?r = "mk_request (Some ''session-users'') (Some ''u1'') None
              (Some (HString ''Bearer good.jwt'')) None"
  have a: "classid (params ?r) = Some (CLASS_NAME example_env)"
    by (simp add: mk_request_def example_env_def)
  have b: "authorization (headers ?r) = Some (HString ''Bearer good.jwt'')"
    by (simp add: mk_request_def)
  have w: "split CHR '' '' ''Bearer good.jwt'' = [''Bearer'', ''good.jwt'']"
    by simp
  have c: "index (split CHR '' '' ''Bearer good.jwt'') 0 = Some ''Bearer''"
    by (simp only: w) (simp add: index_def)
  have i1: "index (split CHR '' '' ''Bearer good.jwt'') 1 = Some ''good.jwt''"
    by (simp only: w) (simp add: index_def)
  have d: "jwtDecode example_env (index (split CHR '' '' ''Bearer good.jwt'') 1) = Some session_payload"
    by (simp only: i1) (simp add: example_env_def)
  have t: "property session_payload ''token'' = Inr (Some (JStr ''tok1''))"
    by (simp add: session_payload_def)
  have f: "checkSessionToken example_env (studentid (params ?r)) (Some (JStr ''tok1'')) = Inr True"
    by (simp add: example_env_def mk_request_def)
  have i: "field session_payload ''id'' = Some (JStr ''u1'')"
    by (simp add: session_payload_def)
  show ?thesis
    using authenticate_session_success [OF a b c d t f]
    by (simp add: i) (simp add: mk_request_def example_env_def)
qed

subsection \<open>Failures of the session path\<close>

text \<open>
  The three failures \<^verbatim>\<open>sessionusersAuthenticate\<close> handles: \<^verbatim>\<open>jwtDecode\<close> throws, the session
  lookup returns false, the session lookup throws.
\<close>

lemma sessionusersAuthenticate_decode_throws:
  "jwtDecode e t = None \<Longrightarrow> sessionusersAuthenticate e t req = Respond NotAuthorised"
  by (simp add: sessionusersAuthenticate_def)

lemma sessionusersAuthenticate_lookup_false:
  "jwtDecode e t = Some d \<Longrightarrow> property d ''token'' = Inr tk \<Longrightarrow>
   checkSessionToken e (studentid (params req)) tk = Inr False \<Longrightarrow>
   sessionusersAuthenticate e t req = Respond NotAuthorised"
  by (simp add: sessionusersAuthenticate_def)

lemma sessionusersAuthenticate_lookup_throws:
  "jwtDecode e t = Some d \<Longrightarrow> property d ''token'' = Inr tk \<Longrightarrow>
   checkSessionToken e (studentid (params req)) tk = Inl err \<Longrightarrow>
   sessionusersAuthenticate e t req = NextErr err"
  by (simp add: sessionusersAuthenticate_def)

text \<open>
  The failure it does not handle: a token whose payload parses to \<^verbatim>\<open>null\<close>. The decoder does
  not throw, the read of \<^verbatim>\<open>decoded.token\<close> does, inside the second \<^verbatim>\<open>try\<close>, and the TypeError
  goes to \<^verbatim>\<open>next(err)\<close>, whatever the session store would have said.
\<close>

lemma sessionusersAuthenticate_null_payload:
  "jwtDecode e t = Some JNull \<Longrightarrow> sessionusersAuthenticate e t req = NextErr TypeError"
  by (simp add: sessionusersAuthenticate_def)

text \<open>
  C5, at the input where the code departs from it: the request is for the reserved session
  tenant and its header is \<^verbatim>\<open>Bearer h.bnVsbA.s\<close>, a token whose payload is the text
  \<^verbatim>\<open>null\<close>. The malformed payload is not answered Unauthenticated: the session path, and
  \<^verbatim>\<open>authenticate\<close> with it, hands a TypeError to the chain's error handler.
\<close>

theorem sessionusersAuthenticate_null_payload_faults:
  "jwtDecode example_env (Some ''h.bnVsbA.s'') = Some JNull
   \<and> sessionusersAuthenticate example_env (Some ''h.bnVsbA.s'')
       (mk_request (Some ''session-users'') (Some ''u1'') None
          (Some (HString ''Bearer h.bnVsbA.s'')) None)
     = NextErr TypeError
   \<and> authenticate example_env
       (mk_request (Some ''session-users'') (Some ''u1'') None
          (Some (HString ''Bearer h.bnVsbA.s'')) None)
     = NextErr TypeError"
proof -
  have w: "split CHR '' '' ''Bearer h.bnVsbA.s'' = [''Bearer'', ''h.bnVsbA.s'']"
    by simp
  have d: "jwtDecode example_env (Some ''h.bnVsbA.s'') = Some JNull"
    by (simp add: example_env_def)
  have s: "sessionusersAuthenticate example_env (Some ''h.bnVsbA.s'')
       (mk_request (Some ''session-users'') (Some ''u1'') None
          (Some (HString ''Bearer h.bnVsbA.s'')) None) = NextErr TypeError"
    using d by (rule sessionusersAuthenticate_null_payload)
  have c: "CLASS_NAME example_env = ''session-users''"
    by (simp add: example_env_def)
  have "authenticate example_env
       (mk_request (Some ''session-users'') (Some ''u1'') None
          (Some (HString ''Bearer h.bnVsbA.s'')) None)
     = sessionusersAuthenticate example_env (Some ''h.bnVsbA.s'')
       (mk_request (Some ''session-users'') (Some ''u1'') None
          (Some (HString ''Bearer h.bnVsbA.s'')) None)"
    unfolding authenticate_def
    by (simp add: mk_request_def c index_def del: split.simps) (simp add: w del: split.simps)
  with d s show ?thesis by simp
qed

subsection \<open>Claims normalisation and the authorisation gate\<close>

text \<open>
  C8: \<^verbatim>\<open>getValuesFromToken\<close> is idempotent: a second application leaves the request (and so
  its structured role and tenant) as the first left it, and a request whose principal already
  carries the structured pair is not changed at all.
\<close>

theorem getValuesFromToken_idempotent:
  "getValuesFromToken (getValuesFromToken req) = getValuesFromToken req
   \<and> (structured_claims req \<noteq> None \<longrightarrow> getValuesFromToken req = req)"
  by (simp add: getValuesFromToken_def structured_claims_def split: option.splits)

theorem getValuesFromToken_idempotent_witness:
  "structured_claims (mk_request (Some ''class1'') None None None (Some alice)) \<noteq> None
   \<and> getValuesFromToken (mk_request (Some ''class1'') None None None (Some alice))
     = mk_request (Some ''class1'') None None None (Some alice)
   \<and> getValuesFromToken (getValuesFromToken (mk_request (Some ''class1'') None None None (Some auth0_user)))
     = getValuesFromToken (mk_request (Some ''class1'') None None None (Some auth0_user))"
proof -
  have "structured_claims (mk_request (Some ''class1'') None None None (Some alice)) \<noteq> None"
    by (simp add: structured_claims_def mk_request_def alice_def)
  then show ?thesis
    using getValuesFromToken_idempotent [of "mk_request (Some ''class1'') None None None (Some alice)"]
      getValuesFromToken_idempotent [of "mk_request (Some ''class1'') None None None (Some auth0_user)"]
    by blast
qed

text \<open>
  C6: \<^verbatim>\<open>checkValidUser\<close>, on the request as \<^verbatim>\<open>getValuesFromToken\<close> leaves it: Unauthenticated
  when there is no principal or no structured role/tenant pair; Forbidden when the principal's
  tenant differs from the tenant path segment; and the chain continues (with the normalised
  request) exactly when the pair is present and its tenant equals the path segment.
\<close>

theorem checkValidUser_outcomes:
  "(structured_claims (getValuesFromToken req) = None
      \<longrightarrow> checkValidUser req = Respond NotAuthorised)
   \<and> (\<forall>m. structured_claims (getValuesFromToken req) = Some m \<and> tenant m \<noteq> classid (params req)
      \<longrightarrow> checkValidUser req = Respond Forbidden)
   \<and> (\<forall>m. structured_claims (getValuesFromToken req) = Some m \<and> tenant m = classid (params req)
      \<longrightarrow> checkValidUser req = Next (getValuesFromToken req))
   \<and> ((\<exists>r. checkValidUser req = Next r) \<longleftrightarrow>
        (\<exists>m. structured_claims (getValuesFromToken req) = Some m \<and> tenant m = classid (params req)))"
proof -
  let ?r = "getValuesFromToken req"
  have p: "params ?r = params req"
    by (rule params_getValuesFromToken)
  show ?thesis
  proof (cases "user ?r")
    case None
    then show ?thesis
      by (simp add: checkValidUser_def structured_claims_def Let_def)
  next
    case (Some u)
    show ?thesis
    proof (cases "app_metadata u")
      case None
      with Some show ?thesis
        by (simp add: checkValidUser_def structured_claims_def Let_def)
    next
      case (Some m)
      with \<open>user ?r = Some u\<close> p show ?thesis
        by (simp add: checkValidUser_def structured_claims_def Let_def)
    qed
  qed
qed

theorem checkValidUser_outcomes_witness:
  "(structured_claims (getValuesFromToken (mk_request (Some ''class1'') None None None None)) = None
    \<and> checkValidUser (mk_request (Some ''class1'') None None None None) = Respond NotAuthorised)
   \<and> (checkValidUser (mk_request (Some ''class2'') None None None (Some alice)) = Respond Forbidden)
   \<and> (checkValidUser (mk_request (Some ''class1'') None None None (Some auth0_user))
      = Next (getValuesFromToken (mk_request (Some ''class1'') None None None (Some auth0_user))))"
proof -
  let ?m = "\<lparr>role = Some ''student'', tenant = Some ''class1''\<rparr>"
  let ?s = "\<lparr>role = Some ''supervisor'', tenant = Some ''class1''\<rparr>"
  have a: "structured_claims (getValuesFromToken (mk_request (Some ''class1'') None None None None)) = None"
    by (simp add: structured_claims_def getValuesFromToken_def mk_request_def)
  have b: "structured_claims (getValuesFromToken (mk_request (Some ''class2'') None None None (Some alice)))
             = Some ?m \<and> tenant ?m \<noteq> classid (params (mk_request (Some ''class2'') None None None (Some alice)))"
    by (simp add: structured_claims_def getValuesFromToken_def mk_request_def alice_def)
  have c: "structured_claims (getValuesFromToken (mk_request (Some ''class1'') None None None (Some auth0_user)))
             = Some ?s \<and> tenant ?s = classid (params (mk_request (Some ''class1'') None None None (Some auth0_user)))"
    by (simp add: structured_claims_def getValuesFromToken_def mk_request_def auth0_user_def
        role_key_def tenant_key_def)
  show ?thesis
    using a b c
      checkValidUser_outcomes [of "mk_request (Some ''class1'') None None None None"]
      checkValidUser_outcomes [of "mk_request (Some ''class2'') None None None (Some alice)"]
      checkValidUser_outcomes [of "mk_request (Some ''class1'') None None None (Some auth0_user)"]
    by blast
qed

text \<open>
  C7: when the principal and its structured role/tenant pair are present (normalisation and
  the tenant-match check have run), \<^verbatim>\<open>requireSupervisor\<close> answers with the
  supervisor-required rejection for every role other than supervisor, and continues the chain
  exactly when the role is supervisor.
\<close>

theorem requireSupervisor_outcomes:
  assumes "user req = Some u" and "app_metadata u = Some m"
  shows "(role m \<noteq> Some ''supervisor'' \<longrightarrow> requireSupervisor req = Respond SupervisorOnly)
         \<and> (role m = Some ''supervisor'' \<longrightarrow> requireSupervisor req = Next req)
         \<and> ((\<exists>r. requireSupervisor req = Next r) \<longleftrightarrow> role m = Some ''supervisor'')"
  using assms by (simp add: requireSupervisor_def)

theorem requireSupervisor_outcomes_witness:
  "requireSupervisor (mk_request (Some ''class1'') None None None (Some alice)) = Respond SupervisorOnly
   \<and> requireSupervisor (mk_request (Some ''class1'') None None None (Some teacher))
     = Next (mk_request (Some ''class1'') None None None (Some teacher))"
proof -
  let ?m = "\<lparr>role = Some ''student'', tenant = Some ''class1''\<rparr>"
  let ?s = "\<lparr>role = Some ''supervisor'', tenant = Some ''class1''\<rparr>"
  have a1: "user (mk_request (Some ''class1'') None None None (Some alice)) = Some alice"
    by (simp add: mk_request_def)
  have a2: "app_metadata alice = Some ?m"
    by (simp add: alice_def)
  have a3: "role ?m \<noteq> Some ''supervisor''"
    by simp
  have t1: "user (mk_request (Some ''class1'') None None None (Some teacher)) = Some teacher"
    by (simp add: mk_request_def)
  have t2: "app_metadata teacher = Some ?s"
    by (simp add: teacher_def)
  have t3: "role ?s = Some ''supervisor''"
    by simp
  show ?thesis
    using a3 t3 requireSupervisor_outcomes [OF a1 a2] requireSupervisor_outcomes [OF t1 t2]
    by blast
qed

text \<open>
  C9: \<^verbatim>\<open>ensureUnmanaged\<close> fetches the policy of the tenant path segment; it answers 403 when
  the policy is managed, continues the chain when it is not, and passes an error thrown by the
  fetch to \<^verbatim>\<open>next(err)\<close> instead of answering.
\<close>

theorem ensureUnmanaged_outcomes:
  "(\<forall>policy. getClassTenant e (classid (params req)) = Inr policy \<and> isManaged policy
      \<longrightarrow> ensureUnmanaged e req
          = Respond (StatusJson FORBIDDEN ''Access to API keys is forbidden for managed tenants''))
   \<and> (\<forall>policy. getClassTenant e (classid (params req)) = Inr policy \<and> \<not> isManaged policy
      \<longrightarrow> ensureUnmanaged e req = Next req)
   \<and> (\<forall>err. getClassTenant e (classid (params req)) = Inl err
      \<longrightarrow> ensureUnmanaged e req = NextErr err)
   \<and> FORBIDDEN = 403"
  by (simp add: ensureUnmanaged_def FORBIDDEN_def)

theorem ensureUnmanaged_outcomes_witness:
  "ensureUnmanaged example_env (mk_request (Some ''managed'') None None None (Some teacher))
     = Respond (StatusJson 403 ''Access to API keys is forbidden for managed tenants'')
   \<and> ensureUnmanaged example_env (mk_request (Some ''class1'') None None None (Some teacher))
     = Next (mk_request (Some ''class1'') None None None (Some teacher))
   \<and> ensureUnmanaged example_env (mk_request (Some ''broken'') None None None (Some teacher))
     = NextErr (Failure ''tenant store down'')"
proof -
  have a: "getClassTenant example_env
             (classid (params (mk_request (Some ''managed'') None None None (Some teacher))))
           = Inr \<lparr>isManaged = True\<rparr> \<and> isManaged \<lparr>isManaged = True\<rparr>"
    by (simp add: example_env_def mk_request_def)
  have b: "getClassTenant example_env
             (classid (params (mk_request (Some ''class1'') None None None (Some teacher))))
           = Inr \<lparr>isManaged = False\<rparr> \<and> \<not> isManaged \<lparr>isManaged = False\<rparr>"
    by (simp add: example_env_def mk_request_def)
  have c: "getClassTenant example_env
             (classid (params (mk_request (Some ''broken'') None None None (Some teacher))))
           = Inl (Failure ''tenant store down'')"
    by (simp add: example_env_def mk_request_def)
  show ?thesis
    using a b c
      ensureUnmanaged_outcomes [of example_env "mk_request (Some ''managed'') None None None (Some teacher)"]
      ensureUnmanaged_outcomes [of example_env "mk_request (Some ''class1'') None None None (Some teacher)"]
      ensureUnmanaged_outcomes [of example_env "mk_request (Some ''broken'') None None None (Some teacher)"]
    by (metis (no_types))
qed

subsection \<open>Project access\<close>

lemma isOwner_principal:
  "user req = Some u \<Longrightarrow>
   isOwner req p = Some (Some (JStr (project_userid p)) = sub u \<and>
                         Some (project_userid p) = studentid (params req))"
  by (simp add: isOwner_def)

lemma isOwner_no_principal: "user req = None \<Longrightarrow> isOwner req p = None"
  by (simp add: isOwner_def)

text \<open>
  With a principal on the request, the decision of \<^verbatim>\<open>verifyProjectAuth\<close> on a project of the
  path's tenant is the one the specification describes: owner (token subject and path member
  identifier both equal to the project's owner) or, when shared access is allowed, a
  crowd-sourced project.
\<close>

lemma verifyProjectAuth_principal:
  assumes "getProject e (projectid (params req)) = Inr (Some p)"
    and "Some (project_classid p) = classid (params req)"
    and "user req = Some u"
  shows "verifyProjectAuth e req allowed =
           (if (Some (JStr (project_userid p)) = sub u \<and> Some (project_userid p) = studentid (params req))
               \<or> (allowed \<and> isCrowdSourced p)
            then Next (req\<lparr>project := Some p\<rparr>)
            else Respond Forbidden)"
  using assms by (auto simp: verifyProjectAuth_def isOwner_def)

text \<open>
  C3: for both project-access operations, a project identifier with no project is answered
  NotFound whatever the tenant, the principal and the owner are, and a project whose tenant
  differs from the tenant path segment is answered Forbidden, also for its owner.
\<close>

theorem verifyProject_absent_or_foreign:
  "(getProject e (projectid (params req)) = Inr None
      \<longrightarrow> verifyProjectOwner e req = Respond NotFound
        \<and> verifyProjectAccess e req = Respond NotFound)
   \<and> (\<forall>p. getProject e (projectid (params req)) = Inr (Some p)
          \<and> Some (project_classid p) \<noteq> classid (params req)
      \<longrightarrow> verifyProjectOwner e req = Respond Forbidden
        \<and> verifyProjectAccess e req = Respond Forbidden)"
  by (simp add: verifyProjectOwner_def verifyProjectAccess_def verifyProjectAuth_def)

theorem verifyProject_absent_or_foreign_witness:
  "(verifyProjectOwner example_env
      (mk_request (Some ''class1'') (Some ''alice'') (Some ''nope'') None (Some alice)) = Respond NotFound
    \<and> verifyProjectAccess example_env
      (mk_request (Some ''class1'') (Some ''alice'') (Some ''nope'') None (Some alice)) = Respond NotFound)
   \<and> (verifyProjectOwner example_env
      (mk_request (Some ''class2'') (Some ''alice'') (Some ''p1'') None (Some alice)) = Respond Forbidden
    \<and> verifyProjectAccess example_env
      (mk_request (Some ''class2'') (Some ''alice'') (Some ''p1'') None (Some alice)) = Respond Forbidden)"
proof -
  have a: "getProject example_env (projectid (params
             (mk_request (Some ''class1'') (Some ''alice'') (Some ''nope'') None (Some alice)))) = Inr None"
    by (simp add: example_env_def mk_request_def)
  have b: "getProject example_env (projectid (params
             (mk_request (Some ''class2'') (Some ''alice'') (Some ''p1'') None (Some alice))))
           = Inr (Some project1)
         \<and> Some (project_classid project1) \<noteq> classid (params
             (mk_request (Some ''class2'') (Some ''alice'') (Some ''p1'') None (Some alice)))"
    by (simp add: example_env_def mk_request_def project1_def)
  show ?thesis
    using a b
      verifyProject_absent_or_foreign [of example_env
        "mk_request (Some ''class1'') (Some ''alice'') (Some ''nope'') None (Some alice)"]
      verifyProject_absent_or_foreign [of example_env
        "mk_request (Some ''class2'') (Some ''alice'') (Some ''p1'') None (Some alice)"]
    by blast
qed

text \<open>
  C10: with no principal on the request, a project that exists and whose tenant equals the
  tenant path segment is attached and the chain continues, in \<^verbatim>\<open>verifyProjectOwner\<close> and in
  \<^verbatim>\<open>verifyProjectAccess\<close>, whatever the project's owner and its crowd-sourced flag are: the
  owner value is then \<^verbatim>\<open>undefined\<close>, which the test \<^verbatim>\<open>isOwner === false\<close> does not catch.
\<close>

theorem verifyProject_no_principal_passes:
  assumes "user req = None"
    and "getProject e (projectid (params req)) = Inr (Some p)"
    and "Some (project_classid p) = classid (params req)"
  shows "isOwner req p = None
         \<and> verifyProjectOwner e req = Next (req\<lparr>project := Some p\<rparr>)
         \<and> verifyProjectAccess e req = Next (req\<lparr>project := Some p\<rparr>)"
  using assms
  by (simp add: verifyProjectOwner_def verifyProjectAccess_def verifyProjectAuth_def isOwner_def)

theorem verifyProject_no_principal_passes_witness:
  "verifyProjectOwner example_env
      (mk_request (Some ''class1'') (Some ''bob'') (Some ''p2'') None None)
     = Next (mk_request (Some ''class1'') (Some ''bob'') (Some ''p2'') None None
               \<lparr>project := Some project2\<rparr>)
   \<and> verifyProjectAccess example_env
      (mk_request (Some ''class1'') (Some ''bob'') (Some ''p2'') None None)
     = Next (mk_request (Some ''class1'') (Some ''bob'') (Some ''p2'') None None
               \<lparr>project := Some project2\<rparr>)"
proof -
  let ?r = "mk_request (Some ''class1'') (Some ''bob'') (Some ''p2'') None None"
  have a: "user ?r = None"
    by (simp add: mk_request_def)
  have b: "getProject example_env (projectid (params ?r)) = Inr (Some project2)"
    by (simp add: example_env_def mk_request_def)
  have c: "Some (project_classid project2) = classid (params ?r)"
    by (simp add: mk_request_def project2_def)
  show ?thesis
    using verifyProject_no_principal_passes [OF a b c] by simp
qed

text \<open>
  C2, at the input where the code departs from it: the request carries no principal, the
  path names member \<^verbatim>\<open>mallory\<close>, and project \<^verbatim>\<open>p1\<close> belongs to \<^verbatim>\<open>alice\<close> in the path's tenant
  and is not crowd-sourced. The owner-only operation attaches the project and continues the
  chain instead of answering Forbidden.
\<close>

theorem verifyProjectOwner_anonymous_is_admitted:
  "verifyProjectOwner example_env
      (mk_request (Some ''class1'') (Some ''mallory'') (Some ''p1'') None None)
     = Next (mk_request (Some ''class1'') (Some ''mallory'') (Some ''p1'') None None
               \<lparr>project := Some project1\<rparr>)"
  by (simp add: verifyProjectOwner_def verifyProjectAuth_def isOwner_def example_env_def
      mk_request_def project1_def)

end
